theory Spec2Isabelle
  imports
    Main
    "HOL-Library.AList"
    "HOL-Library.Char_ord"
    "HOL-Library.List_Lexorder"
    "HOL-Library.Multiset"
begin

section \<open>The NFT/IPFS backend of \<^verbatim>\<open>src/app/main.py\<close>\<close>

text \<open>
  The service keeps its records as JSON files in \<^verbatim>\<open>./data/metadata\<close>, stages uploaded
  files in \<^verbatim>\<open>./data/uploads\<close> and hands contents to an IPFS node. The model below
  follows the handlers of \<^verbatim>\<open>main.py\<close> one by one. Every handler takes the state of the
  two directories and of the node and returns its result with the state it leaves behind;
  a raised exception is the \<open>Inl\<close> branch of the result.
\<close>

subsection \<open>Values\<close>

text \<open>
  What \<^verbatim>\<open>json.loads\<close> produces: \<^verbatim>\<open>None\<close>, booleans, integers, strings, lists and
  dictionaries (in insertion order, as Python keeps them). Floating-point numbers are
  left out.
\<close>

datatype json =
    JNull
  | JBool bool
  | JNum int
  | JStr string
  | JArr "json list"
  | JObj "(string \<times> json) list"

text \<open>
  A text (the contents of a file, or of a form field) is represented by what the JSON
  decoder makes of it: either it is the encoding of a value, which is what
  \<^verbatim>\<open>json.dump\<close> writes and \<^verbatim>\<open>json.load\<close> reads back, or it is a text that the decoder
  rejects. The empty text is of the second kind.
\<close>

datatype contents = JsonText json | Garbage string

datatype exn =
    HTTPException nat
  | JSONDecodeError
  | TypeError
  | AttributeError
  | ValidationError
  | IPFSError
  | OSError
  | QRError

fun json_loads :: "contents \<Rightarrow> exn + json" where
  "json_loads (JsonText v) = Inr v"
| "json_loads (Garbage s) = Inl JSONDecodeError"

text \<open>Truth value of a string, as in \<^verbatim>\<open>if attributes:\<close>: only the empty string is false.\<close>

fun nonempty :: "contents \<Rightarrow> bool" where
  "nonempty (JsonText v) = True"
| "nonempty (Garbage s) = (s \<noteq> [])"

text \<open>Truth value of a decoded value, as in \<^verbatim>\<open>if not content_cid:\<close>.\<close>

fun truthy :: "json \<Rightarrow> bool" where
  "truthy JNull = False"
| "truthy (JBool b) = b"
| "truthy (JNum i) = (i \<noteq> 0)"
| "truthy (JStr s) = (s \<noteq> [])"
| "truthy (JArr xs) = (xs \<noteq> [])"
| "truthy (JObj kvs) = (kvs \<noteq> [])"

text \<open>\<^verbatim>\<open>d.get(k)\<close> and \<^verbatim>\<open>d[k] = v\<close> on a dictionary.\<close>

definition dict_get :: "(string \<times> json) list \<Rightarrow> string \<Rightarrow> json" where
  "dict_get d k = (case map_of d k of None \<Rightarrow> JNull | Some v \<Rightarrow> v)"

definition dict_set :: "string \<Rightarrow> json \<Rightarrow> (string \<times> json) list \<Rightarrow> (string \<times> json) list" where
  "dict_set k v d = AList.update k v d"

subsection \<open>Response models\<close>

record NFTResponse =
  nft_id :: string
  content_cid :: string
  metadata_cid :: string
  metadata :: "(string \<times> json) list"

record NFTListResponse =
  nfts :: "NFTResponse list"
  total_count :: nat

text \<open>
  \<^verbatim>\<open>NFTResponse(**nft_data)\<close>: the argument has to be a dictionary, the three identifier
  fields have to be there and be strings (\<^verbatim>\<open>None\<close> is rejected by a field declared
  \<^verbatim>\<open>str\<close>), \<^verbatim>\<open>metadata\<close> has to be a dictionary, and other keys are ignored.
\<close>

fun str_field :: "json option \<Rightarrow> string option" where
  "str_field (Some (JStr s)) = Some s"
| "str_field _ = None"

fun dict_field :: "json option \<Rightarrow> (string \<times> json) list option" where
  "dict_field (Some (JObj d)) = Some d"
| "dict_field _ = None"

definition NFTResponse_init :: "json \<Rightarrow> exn + NFTResponse" where
  "NFTResponse_init nft_data =
     (case nft_data of
        JObj d \<Rightarrow>
          (case str_field (map_of d ''nft_id'') of
             None \<Rightarrow> Inl ValidationError
           | Some i \<Rightarrow>
              (case str_field (map_of d ''content_cid'') of
                 None \<Rightarrow> Inl ValidationError
               | Some c \<Rightarrow>
                  (case str_field (map_of d ''metadata_cid'') of
                     None \<Rightarrow> Inl ValidationError
                   | Some m \<Rightarrow>
                      (case dict_field (map_of d ''metadata'') of
                         None \<Rightarrow> Inl ValidationError
                       | Some md \<Rightarrow>
                           Inr \<lparr>nft_id = i, content_cid = c, metadata_cid = m, metadata = md\<rparr>))))
      | _ \<Rightarrow> Inl TypeError)"

subsection \<open>The state and the outside world\<close>

text \<open>
  A directory lists its files with their contents, in the order in which the file system
  enumerates them. \<open>ipfs_node\<close> collects what has been added to the node.
\<close>

record world =
  metadata_dir :: "(string \<times> contents) list"
  uploads_dir :: "(string \<times> contents) list"
  ipfs_node :: "contents list"

text \<open>
  What a request meets outside the program: the characters \<^verbatim>\<open>uuid4()\<close> draws, whether
  \<^verbatim>\<open>ipfshttpclient.connect\<close> succeeds, the hash the node answers to an \<^verbatim>\<open>add\<close>
  (\<open>None\<close> when the call raises), and whether a path can be opened for writing.
\<close>

record env =
  uuid_chars :: string
  ipfs_connect :: bool
  ipfs_add :: "contents \<Rightarrow> string option"
  open_w :: "string \<Rightarrow> bool"

text \<open>\<^verbatim>\<open>str(uuid4())\<close>: a text of 36 characters, whatever is drawn.\<close>

definition uuid4 :: "env \<Rightarrow> string" where
  "uuid4 e = take 36 (uuid_chars e)"

record UploadFile =
  filename :: string
  content_type :: "string option"
  file_bytes :: contents

definition metadata_path :: "string \<Rightarrow> string" where
  "metadata_path n = ''data/metadata/'' @ n"

definition uploads_path :: "string \<Rightarrow> string" where
  "uploads_path n = ''data/uploads/'' @ n"

definition write_metadata :: "string \<Rightarrow> contents \<Rightarrow> world \<Rightarrow> world" where
  "write_metadata n c w = w\<lparr>metadata_dir := AList.update n c (metadata_dir w)\<rparr>"

definition write_upload :: "string \<Rightarrow> contents \<Rightarrow> world \<Rightarrow> world" where
  "write_upload n c w = w\<lparr>uploads_dir := AList.update n c (uploads_dir w)\<rparr>"

definition remove_upload :: "string \<Rightarrow> world \<Rightarrow> world" where
  "remove_upload n w = w\<lparr>uploads_dir := AList.delete n (uploads_dir w)\<rparr>"

definition node_add :: "contents \<Rightarrow> world \<Rightarrow> world" where
  "node_add c w = w\<lparr>ipfs_node := ipfs_node w @ [c]\<rparr>"

subsection \<open>\<^verbatim>\<open>upload_to_ipfs\<close>\<close>

text \<open>Lines 60 to 66: the attributes, \<^verbatim>\<open>[]\<close> unless a non-empty string is given.\<close>

definition parse_attributes :: "contents option \<Rightarrow> exn + json" where
  "parse_attributes attributes =
     (case attributes of
        None \<Rightarrow> Inr (JArr [])
      | Some a \<Rightarrow>
          if nonempty a
          then (case json_loads a of
                  Inl e \<Rightarrow> Inl (HTTPException 400)
                | Inr v \<Rightarrow> Inr v)
          else Inr (JArr []))"

text \<open>
  Lines 80 to 98: the uploaded file is written to the uploads directory, added to the
  node, recorded in the metadata and removed again. The result is \<^verbatim>\<open>content_cid\<close>
  with the metadata.
\<close>

definition handle_file ::
  "env \<Rightarrow> string \<Rightarrow> UploadFile option \<Rightarrow> (string \<times> json) list \<Rightarrow> world
     \<Rightarrow> (exn + json \<times> (string \<times> json) list) \<times> world" where
  "handle_file e nid file md w =
     (case file of
        None \<Rightarrow> (Inr (JNull, md), w)
      | Some f \<Rightarrow>
          let file_path = nid @ ''_'' @ filename f in
          if \<not> open_w e (uploads_path file_path) then (Inl OSError, w)
          else
            let w1 = write_upload file_path (file_bytes f) w in
            (case ipfs_add e (file_bytes f) of
               None \<Rightarrow> (Inl IPFSError, w1)
             | Some h \<Rightarrow>
                 let w2 = node_add (file_bytes f) w1;
                     md1 = dict_set ''image'' (JStr (''ipfs://'' @ h)) md;
                     md2 = dict_set ''content_type''
                             (case content_type f of None \<Rightarrow> JNull | Some t \<Rightarrow> JStr t) md1
                 in (Inr (JStr h, md2), remove_upload file_path w2)))"

text \<open>
  Lines 99 to 119: the metadata document is written and added to the node, the record
  is written under \<^verbatim>\<open>{nft_id}_data.json\<close>, and only then the response is built.
\<close>

definition store_record ::
  "env \<Rightarrow> string \<Rightarrow> json \<Rightarrow> (string \<times> json) list \<Rightarrow> world \<Rightarrow> (exn + NFTResponse) \<times> world" where
  "store_record e nid cid md w =
     (let metadata_file = nid @ ''.json'' in
      if \<not> open_w e (metadata_path metadata_file) then (Inl OSError, w)
      else
        let w1 = write_metadata metadata_file (JsonText (JObj md)) w in
        (case ipfs_add e (JsonText (JObj md)) of
           None \<Rightarrow> (Inl IPFSError, w1)
         | Some mcid \<Rightarrow>
             let w2 = node_add (JsonText (JObj md)) w1;
                 nft_data = JObj [(''nft_id'', JStr nid), (''content_cid'', cid),
                                  (''metadata_cid'', JStr mcid), (''metadata'', JObj md)];
                 data_file = nid @ ''_data.json''
             in
             if \<not> open_w e (metadata_path data_file) then (Inl OSError, w2)
             else (NFTResponse_init nft_data, write_metadata data_file (JsonText nft_data) w2)))"

text \<open>The body of the \<^verbatim>\<open>try\<close>, lines 57 to 119.\<close>

definition upload_body ::
  "env \<Rightarrow> UploadFile option \<Rightarrow> string \<Rightarrow> string \<Rightarrow> contents option \<Rightarrow> world
     \<Rightarrow> (exn + NFTResponse) \<times> world" where
  "upload_body e file name description attributes w =
     (let nid = uuid4 e in
      case parse_attributes attributes of
        Inl x \<Rightarrow> (Inl x, w)
      | Inr nft_attributes \<Rightarrow>
          let md = [(''name'', JStr name), (''description'', JStr description),
                    (''attributes'', nft_attributes)]
          in
          if \<not> ipfs_connect e then (Inl (HTTPException 503), w)
          else
            (case handle_file e nid file md w of
               (Inl x, w1) \<Rightarrow> (Inl x, w1)
             | (Inr (cid, md1), w1) \<Rightarrow> store_record e nid cid md1 w1))"

text \<open>
  Lines 121 and 122: \<^verbatim>\<open>except Exception\<close> is the only handler of the \<^verbatim>\<open>try\<close>, and
  \<^verbatim>\<open>HTTPException\<close> is an \<^verbatim>\<open>Exception\<close>: whatever the body raises leaves the handler
  as status 500.
\<close>

definition upload_to_ipfs ::
  "env \<Rightarrow> UploadFile option \<Rightarrow> string \<Rightarrow> string \<Rightarrow> contents option \<Rightarrow> world
     \<Rightarrow> (exn + NFTResponse) \<times> world" where
  "upload_to_ipfs e file name description attributes w =
     (case upload_body e file name description attributes w of
        (Inl x, w1) \<Rightarrow> (Inl (HTTPException 500), w1)
      | (Inr r, w1) \<Rightarrow> (Inr r, w1))"

subsection \<open>\<^verbatim>\<open>get_nft\<close>\<close>

text \<open>
  The handlers of the reading routes re-raise an \<^verbatim>\<open>HTTPException\<close> as it is and turn
  every other exception into status 500.
\<close>

fun reraise :: "exn \<Rightarrow> exn" where
  "reraise (HTTPException c) = HTTPException c"
| "reraise x = HTTPException 500"

text \<open>
  \<^verbatim>\<open>nft_data_file.exists()\<close>: true for a file that is there; for one that is not, false,
  unless its name is longer than the 255 characters a file name may have, in which case
  the call raises \<^verbatim>\<open>OSError\<close> (the name is too long to ask for).
\<close>

definition NAME_MAX :: nat where
  "NAME_MAX = 255"

definition path_exists :: "string \<Rightarrow> (string \<times> contents) list \<Rightarrow> exn + bool" where
  "path_exists n d =
     (case map_of d n of
        Some c \<Rightarrow> Inr True
      | None \<Rightarrow> if NAME_MAX < length n then Inl OSError else Inr False)"

text \<open>
  Lines 134 to 140, the same in \<^verbatim>\<open>get_nft\<close> and in both QR routes: 404 when the data
  file does not exist, otherwise its contents, decoded.
\<close>

definition read_data :: "string \<Rightarrow> world \<Rightarrow> exn + json" where
  "read_data nid w =
     (let nft_data_file = nid @ ''_data.json'' in
      case path_exists nft_data_file (metadata_dir w) of
        Inl x \<Rightarrow> Inl x
      | Inr found \<Rightarrow>
          if \<not> found then Inl (HTTPException 404)
          else (case map_of (metadata_dir w) nft_data_file of
                  None \<Rightarrow> Inl OSError
                | Some c \<Rightarrow> json_loads c))"

definition get_nft :: "string \<Rightarrow> world \<Rightarrow> (exn + NFTResponse) \<times> world" where
  "get_nft nid w =
     (case read_data nid w of
        Inl x \<Rightarrow> (Inl (reraise x), w)
      | Inr nft_data \<Rightarrow>
          (case NFTResponse_init nft_data of
             Inl x \<Rightarrow> (Inl (reraise x), w)
           | Inr r \<Rightarrow> (Inr r, w)))"

subsection \<open>\<^verbatim>\<open>list_all_nfts\<close>\<close>

text \<open>
  The parts of the Python runtime and of the QR library that the handlers call and that
  are not spelled out here: the comparison of two lists, the text \<^verbatim>\<open>str\<close> gives for a
  value that is not a string, and the PNG rendering of a text (\<open>None\<close> when the encoder
  raises).
\<close>

record py =
  list_lt :: "json list \<Rightarrow> json list \<Rightarrow> bool option"
  py_str :: "json \<Rightarrow> string"
  qrcode_make :: "string \<Rightarrow> string option"

text \<open>
  \<^verbatim>\<open>a < b\<close> on decoded values: strings compare lexicographically, numbers (booleans
  among them) by value, lists by the runtime; anything else raises \<^verbatim>\<open>TypeError\<close>, which
  is the result \<open>None\<close>.
\<close>

fun num_of :: "json \<Rightarrow> int option" where
  "num_of (JNum i) = Some i"
| "num_of (JBool b) = Some (if b then 1 else 0)"
| "num_of _ = None"

definition py_lt :: "py \<Rightarrow> json \<Rightarrow> json \<Rightarrow> bool option" where
  "py_lt p a b =
     (case a of
        JStr s \<Rightarrow> (case b of JStr t \<Rightarrow> Some (s < t) | _ \<Rightarrow> None)
      | JArr xs \<Rightarrow> (case b of JArr ys \<Rightarrow> list_lt p xs ys | _ \<Rightarrow> None)
      | _ \<Rightarrow>
          (case num_of a of
             None \<Rightarrow> None
           | Some i \<Rightarrow> (case num_of b of None \<Rightarrow> None | Some j \<Rightarrow> Some (i < j))))"

text \<open>
  \<^verbatim>\<open>list.sort(key=..., reverse=True)\<close>: the list is reversed, sorted in ascending order
  by a stable sort that compares keys with \<^verbatim>\<open><\<close> only, and reversed again. The sort is
  written as an insertion sort; a comparison that raises aborts it.
\<close>

fun insort_py :: "py \<Rightarrow> ('a \<Rightarrow> json) \<Rightarrow> 'a \<Rightarrow> 'a list \<Rightarrow> exn + 'a list" where
  "insort_py p k x [] = Inr [x]"
| "insort_py p k x (y # ys) =
     (case py_lt p (k y) (k x) of
        None \<Rightarrow> Inl TypeError
      | Some False \<Rightarrow> Inr (x # y # ys)
      | Some True \<Rightarrow>
          (case insort_py p k x ys of
             Inl e \<Rightarrow> Inl e
           | Inr zs \<Rightarrow> Inr (y # zs)))"

fun sort_py :: "py \<Rightarrow> ('a \<Rightarrow> json) \<Rightarrow> 'a list \<Rightarrow> exn + 'a list" where
  "sort_py p k [] = Inr []"
| "sort_py p k (x # xs) =
     (case sort_py p k xs of
        Inl e \<Rightarrow> Inl e
      | Inr ys \<Rightarrow> insort_py p k x ys)"

definition sort_reverse :: "py \<Rightarrow> ('a \<Rightarrow> json) \<Rightarrow> 'a list \<Rightarrow> exn + 'a list" where
  "sort_reverse p k xs =
     (case sort_py p k (rev xs) of
        Inl e \<Rightarrow> Inl e
      | Inr ys \<Rightarrow> Inr (rev ys))"

text \<open>\<^verbatim>\<open>metadata_dir.glob("*_data.json")\<close>: the files whose name ends in \<^verbatim>\<open>_data.json\<close>.\<close>

definition ends_with :: "string \<Rightarrow> string \<Rightarrow> bool" where
  "ends_with s suf = (length suf \<le> length s \<and> drop (length s - length suf) s = suf)"

definition glob_data :: "(string \<times> contents) list \<Rightarrow> (string \<times> contents) list" where
  "glob_data d = filter (\<lambda>f. ends_with (fst f) ''_data.json'') d"

definition load_nft :: "contents \<Rightarrow> exn + NFTResponse" where
  "load_nft c =
     (case json_loads c of
        Inl e \<Rightarrow> Inl e
      | Inr nft_data \<Rightarrow> NFTResponse_init nft_data)"

text \<open>The loop of lines 159 to 166: a file that does not load is skipped.\<close>

fun load_all :: "(string \<times> contents) list \<Rightarrow> NFTResponse list" where
  "load_all [] = []"
| "load_all (f # fs) =
     (case load_nft (snd f) of
        Inl e \<Rightarrow> load_all fs
      | Inr r \<Rightarrow> r # load_all fs)"

text \<open>The sort key \<^verbatim>\<open>x.metadata.get("name", "")\<close>.\<close>

definition name_key :: "NFTResponse \<Rightarrow> json" where
  "name_key x = (case map_of (metadata x) ''name'' of None \<Rightarrow> JStr [] | Some v \<Rightarrow> v)"

definition list_all_nfts :: "py \<Rightarrow> world \<Rightarrow> (exn + NFTListResponse) \<times> world" where
  "list_all_nfts p w =
     (let nft_data_files = glob_data (metadata_dir w);
          loaded = load_all nft_data_files
      in case sort_reverse p name_key loaded of
           Inl e \<Rightarrow> (Inl (HTTPException 500), w)
         | Inr sorted_nfts \<Rightarrow> (Inr \<lparr>nfts = sorted_nfts, total_count = length sorted_nfts\<rparr>, w))"

subsection \<open>\<^verbatim>\<open>health_check\<close>\<close>

definition health_check :: "env \<Rightarrow> world \<Rightarrow> (string \<times> string) list \<times> world" where
  "health_check e w =
     ([(''status'', ''ok''),
       (''ipfs'', if ipfs_connect e then ''connected'' else ''disconnected'')], w)"

subsection \<open>The QR routes\<close>

text \<open>\<^verbatim>\<open>f"{content_cid}"\<close>: a string as it is, any other value through \<^verbatim>\<open>str\<close>.\<close>

definition fmt :: "py \<Rightarrow> json \<Rightarrow> string" where
  "fmt p v = (case v of JStr s \<Rightarrow> s | _ \<Rightarrow> py_str p v)"

text \<open>
  Lines 197 to 209 and 234 to 246, the same in both routes: the record is read, and
  \<^verbatim>\<open>content_cid\<close> is taken unless it is false, in which case \<^verbatim>\<open>metadata_cid\<close> is.
\<close>

definition resolve_cid :: "string \<Rightarrow> world \<Rightarrow> exn + json" where
  "resolve_cid nid w =
     (case read_data nid w of
        Inl x \<Rightarrow> Inl x
      | Inr nft_data \<Rightarrow>
          (case nft_data of
             JObj d \<Rightarrow>
               let cid = dict_get d ''content_cid'' in
               Inr (if \<not> truthy cid then dict_get d ''metadata_cid'' else cid)
           | _ \<Rightarrow> Inl AttributeError))"

definition render :: "py \<Rightarrow> string \<Rightarrow> exn + string" where
  "render p url = (case qrcode_make p url of None \<Rightarrow> Inl QRError | Some png \<Rightarrow> Inr png)"

definition generate_qr_code :: "py \<Rightarrow> string \<Rightarrow> world \<Rightarrow> (exn + string) \<times> world" where
  "generate_qr_code p nid w =
     (case resolve_cid nid w of
        Inl x \<Rightarrow> (Inl (reraise x), w)
      | Inr cid \<Rightarrow>
          let ipfs_url = ''ipfs://'' @ fmt p cid in
          (case render p ipfs_url of
             Inl x \<Rightarrow> (Inl (reraise x), w)
           | Inr png \<Rightarrow> (Inr png, w)))"

definition generate_gateway_qr_code ::
  "py \<Rightarrow> string \<Rightarrow> string \<Rightarrow> world \<Rightarrow> (exn + string) \<times> world" where
  "generate_gateway_qr_code p nid gateway w =
     (case resolve_cid nid w of
        Inl x \<Rightarrow> (Inl (reraise x), w)
      | Inr cid \<Rightarrow>
          let gateway_url = ''https://'' @ gateway @ ''/ipfs/'' @ fmt p cid in
          (case render p gateway_url of
             Inl x \<Rightarrow> (Inl (reraise x), w)
           | Inr png \<Rightarrow> (Inr png, w)))"

subsection \<open>Observations used in the statements\<close>

text \<open>The record document stored for an identifier, when there is one and it is a dictionary.\<close>

definition stored_data :: "world \<Rightarrow> string \<Rightarrow> (string \<times> json) list option" where
  "stored_data w nid =
     (case map_of (metadata_dir w) (nid @ ''_data.json'') of
        Some (JsonText (JObj d)) \<Rightarrow> Some d
      | _ \<Rightarrow> None)"

definition has_key :: "json \<Rightarrow> string \<Rightarrow> bool" where
  "has_key v k = (case v of JObj d \<Rightarrow> map_of d k \<noteq> None | _ \<Rightarrow> False)"

fun is_str :: "json \<Rightarrow> bool" where
  "is_str (JStr s) = True"
| "is_str _ = False"

text \<open>The name a record is sorted by, read as a string.\<close>

definition name_str :: "NFTResponse \<Rightarrow> string" where
  "name_str x = (case name_key x of JStr s \<Rightarrow> s | _ \<Rightarrow> [])"



subsection \<open>Example requests and stores\<close>

definition env0 :: env where
  "env0 = \<lparr>uuid_chars = ''u1'', ipfs_connect = True, ipfs_add = (\<lambda>c. Some ''Qm1''),
           open_w = (\<lambda>p. True)\<rparr>"

definition py0 :: py where
  "py0 = \<lparr>list_lt = (\<lambda>xs ys. None), py_str = (\<lambda>v. ''None''), qrcode_make = (\<lambda>s. Some s)\<rparr>"

definition world0 :: world where
  "world0 = \<lparr>metadata_dir = [], uploads_dir = [], ipfs_node = []\<rparr>"

definition file0 :: UploadFile where
  "file0 = \<lparr>filename = ''a.png'', content_type = Some ''image/png'', file_bytes = Garbage ''abc''\<rparr>"

text \<open>The record and the state that creating \<^verbatim>\<open>Art1\<close> with \<open>file0\<close> leads to.\<close>

definition metadata1 :: "(string \<times> json) list" where
  "metadata1 =
     [(''name'', JStr ''Art1''), (''description'', JStr ''d''), (''attributes'', JArr []),
      (''image'', JStr ''ipfs://Qm1''), (''content_type'', JStr ''image/png'')]"

definition data1 :: "(string \<times> json) list" where
  "data1 =
     [(''nft_id'', JStr ''u1''), (''content_cid'', JStr ''Qm1''),
      (''metadata_cid'', JStr ''Qm1''), (''metadata'', JObj metadata1)]"

definition record1 :: NFTResponse where
  "record1 =
     \<lparr>nft_id = ''u1'', content_cid = ''Qm1'', metadata_cid = ''Qm1'', metadata = metadata1\<rparr>"

definition world1 :: world where
  "world1 =
     \<lparr>metadata_dir =
        [(''u1.json'', JsonText (JObj metadata1)), (''u1_data.json'', JsonText (JObj data1))],
      uploads_dir = [],
      ipfs_node = [Garbage ''abc'', JsonText (JObj metadata1)]\<rparr>"

text \<open>The state that creating \<^verbatim>\<open>Art0\<close> without a file leads to.\<close>

definition metadata0 :: "(string \<times> json) list" where
  "metadata0 =
     [(''name'', JStr ''Art0''), (''description'', JStr ''d''), (''attributes'', JArr [])]"

definition data0 :: "(string \<times> json) list" where
  "data0 =
     [(''nft_id'', JStr ''u1''), (''content_cid'', JNull),
      (''metadata_cid'', JStr ''Qm1''), (''metadata'', JObj metadata0)]"

definition world_nofile :: world where
  "world_nofile =
     \<lparr>metadata_dir =
        [(''u1.json'', JsonText (JObj metadata0)), (''u1_data.json'', JsonText (JObj data0))],
      uploads_dir = [],
      ipfs_node = [JsonText (JObj metadata0)]\<rparr>"

text \<open>Stores for the listing: three records and a broken file; two records named \<^verbatim>\<open>null\<close>.\<close>

definition named :: "string \<Rightarrow> json \<Rightarrow> contents" where
  "named i n =
     JsonText (JObj [(''nft_id'', JStr i), (''content_cid'', JStr ''Qm1''),
                     (''metadata_cid'', JStr ''Qm2''), (''metadata'', JObj [(''name'', n)])])"

definition listed :: "string \<Rightarrow> json \<Rightarrow> NFTResponse" where
  "listed i n =
     \<lparr>nft_id = i, content_cid = ''Qm1'', metadata_cid = ''Qm2'', metadata = [(''name'', n)]\<rparr>"

definition world2 :: world where
  "world2 =
     \<lparr>metadata_dir =
        [(''a_data.json'', named ''a'' (JStr ''Art0'')),
         (''junk_data.json'', Garbage ''{''),
         (''b_data.json'', named ''b'' (JStr ''Art1'')),
         (''c_data.json'', named ''c'' (JStr ''Art0''))],
      uploads_dir = [], ipfs_node = []\<rparr>"

definition listing2 :: NFTListResponse where
  "listing2 =
     \<lparr>nfts = [listed ''b'' (JStr ''Art1''), listed ''a'' (JStr ''Art0''),
              listed ''c'' (JStr ''Art0'')],
      total_count = 3\<rparr>"

definition world_null :: world where
  "world_null =
     \<lparr>metadata_dir = [(''a_data.json'', named ''a'' JNull), (''b_data.json'', named ''b'' JNull)],
      uploads_dir = [], ipfs_node = []\<rparr>"

text \<open>An identifier of 246 characters, and a node that answers the empty hash.\<close>

definition long_id :: string where
  "long_id = replicate 246 (CHR ''a'')"

definition env_empty :: env where
  "env_empty = \<lparr>uuid_chars = ''u1'', ipfs_connect = True, ipfs_add = (\<lambda>c. Some []),
                open_w = (\<lambda>p. True)\<rparr>"

definition metadata_empty :: "(string \<times> json) list" where
  "metadata_empty =
     [(''name'', JStr ''Art1''), (''description'', JStr ''d''), (''attributes'', JArr []),
      (''image'', JStr ''ipfs://''), (''content_type'', JStr ''image/png'')]"

definition record_empty :: NFTResponse where
  "record_empty =
     \<lparr>nft_id = ''u1'', content_cid = [], metadata_cid = [], metadata = metadata_empty\<rparr>"

definition world_bad :: world where
  "world_bad =
     \<lparr>metadata_dir = [(''bad_data.json'', Garbage ''{'')], uploads_dir = [], ipfs_node = []\<rparr>"

section \<open>Properties\<close>

subsection \<open>Auxiliary facts\<close>

lemmas handler_defs =
  upload_to_ipfs_def upload_body_def parse_attributes_def handle_file_def store_record_def
  NFTResponse_init_def write_metadata_def write_upload_def remove_upload_def node_add_def
  dict_set_def dict_get_def metadata_path_def uploads_path_def get_nft_def read_data_def
  path_exists_def NAME_MAX_def uuid4_def
  list_all_nfts_def glob_data_def ends_with_def load_nft_def name_key_def sort_reverse_def
  py_lt_def generate_qr_code_def generate_gateway_qr_code_def resolve_cid_def render_def fmt_def

lemmas example_defs =
  env0_def world0_def file0_def py0_def metadata1_def data1_def record1_def world1_def
  metadata0_def data0_def world_nofile_def named_def listed_def world2_def listing2_def
  world_null_def world_bad_def long_id_def env_empty_def metadata_empty_def record_empty_def

lemma uuid4_length: "length (uuid4 e) \<le> 36"
  by (simp add: uuid4_def)

lemma read_data_eq:
  "read_data nid w =
     (case map_of (metadata_dir w) (nid @ ''_data.json'') of
        Some c \<Rightarrow> json_loads c
      | None \<Rightarrow> if 245 < length nid then Inl OSError else Inl (HTTPException 404))"
  by (auto simp: read_data_def path_exists_def NAME_MAX_def Let_def split: option.splits)



lemma str_field_Some: "str_field v = Some s \<Longrightarrow> v = Some (JStr s)"
  by (cases v rule: str_field.cases) auto

lemma map_of_update_same: "map_of (AList.update k v al) k = Some v"
  by (simp add: AList.update_conv')

lemma map_of_dict_set: "map_of (dict_set k v d) = (map_of d)(k \<mapsto> v)"
  by (simp add: dict_set_def AList.update_conv')

text \<open>What the three stages of a create leave behind.\<close>

lemma handle_file_Some:
  "handle_file e nid (Some f) md w = (Inr (cid, md'), w') \<Longrightarrow>
     \<exists>h. ipfs_add e (file_bytes f) = Some h \<and> cid = JStr h
       \<and> md' = dict_set ''content_type''
                 (case content_type f of None \<Rightarrow> JNull | Some t \<Rightarrow> JStr t)
                 (dict_set ''image'' (JStr (''ipfs://'' @ h)) md)"
  by (auto simp: handle_file_def Let_def split: if_splits option.splits)

lemma handle_file_together:
  "handle_file e nid fl md w = (Inr (cid, md'), w') \<Longrightarrow>
   map_of md ''image'' = None \<Longrightarrow> map_of md ''content_type'' = None \<Longrightarrow>
     (cid \<noteq> JNull) = (map_of md' ''image'' \<noteq> None)
   \<and> (cid \<noteq> JNull) = (map_of md' ''content_type'' \<noteq> None)"
  by (cases fl) (auto simp: handle_file_def Let_def map_of_dict_set split: if_splits option.splits)

lemma handle_file_metadata_dir:
  "handle_file e nid fl md w = (res, w') \<Longrightarrow> metadata_dir w' = metadata_dir w"
  by (cases fl)
     (auto simp: handle_file_def Let_def write_upload_def node_add_def remove_upload_def
        split: if_splits option.splits)

lemma store_record_fields:
  "store_record e nid cid md w = (Inr r, w') \<Longrightarrow> cid = JStr (content_cid r) \<and> metadata r = md"
  by (auto simp: store_record_def Let_def NFTResponse_init_def
      split: if_splits option.splits dest!: str_field_Some)

lemma store_record_get:
  "store_record e nid cid md w = (Inr r, w') \<Longrightarrow> nft_id r = nid \<and> get_nft nid w' = (Inr r, w')"
  by (auto simp: store_record_def Let_def get_nft_def read_data_eq write_metadata_def
        map_of_update_same NFTResponse_init_def
      split: if_splits option.splits json.splits)

lemma store_record_stored:
  "store_record e nid cid md w = (res, w') \<Longrightarrow> stored_data w nid = None \<Longrightarrow>
   stored_data w' nid = Some d \<Longrightarrow>
     dict_get d ''content_cid'' = cid \<and> dict_get d ''metadata'' = JObj md"
  by (auto simp: store_record_def Let_def stored_data_def write_metadata_def node_add_def
        dict_get_def AList.update_conv'
      split: if_splits option.splits)

lemma stored_data_cong:
  "metadata_dir w' = metadata_dir w \<Longrightarrow> stored_data w' nid = stored_data w nid"
  by (simp add: stored_data_def)

lemma upload_body_cases:
  assumes "upload_body e fl name description attributes w = (res, w')"
  shows "w' = w
       \<or> (\<exists>x md. handle_file e (uuid4 e) fl md w = (Inl x, w'))
       \<or> (\<exists>cid md md1 w1. map_of md ''image'' = None \<and> map_of md ''content_type'' = None
             \<and> handle_file e (uuid4 e) fl md w = (Inr (cid, md1), w1)
             \<and> store_record e (uuid4 e) cid md1 w1 = (res, w'))"
proof (cases "parse_attributes attributes")
  case (Inl x)
  with assms show ?thesis by (simp add: upload_body_def)
next
  case (Inr attrs)
  let ?md = "[(''name'', JStr name), (''description'', JStr description), (''attributes'', attrs)]"
  have keys: "map_of ?md ''image'' = None" "map_of ?md ''content_type'' = None" by simp_all
  show ?thesis
  proof (cases "ipfs_connect e")
    case False
    with Inr assms show ?thesis by (simp add: upload_body_def)
  next
    case True
    obtain hres w1 where hf: "handle_file e (uuid4 e) fl ?md w = (hres, w1)"
      by (cases "handle_file e (uuid4 e) fl ?md w") auto
    show ?thesis
    proof (cases hres)
      case (Inl x)
      with \<open>parse_attributes attributes = Inr attrs\<close> True hf assms have "w' = w1"
        by (simp add: upload_body_def)
      with hf Inl show ?thesis by blast
    next
      case (Inr q)
      obtain cid md1 where q: "q = (cid, md1)" by (cases q) auto
      from \<open>parse_attributes attributes = Inr attrs\<close> True hf Inr q assms
      have "store_record e (uuid4 e) cid md1 w1 = (res, w')"
        by (simp add: upload_body_def)
      with hf Inr q keys show ?thesis by blast
    qed
  qed
qed

lemma upload_body_stored:
  assumes fresh: "stored_data w (uuid4 e) = None"
    and run: "upload_body e fl name description attributes w = (res, w')"
    and st: "stored_data w' (uuid4 e) = Some d"
  shows "(dict_get d ''content_cid'' \<noteq> JNull) = has_key (dict_get d ''metadata'') ''image''
       \<and> (dict_get d ''content_cid'' \<noteq> JNull) = has_key (dict_get d ''metadata'') ''content_type''"
proof -
  from upload_body_cases [OF run] consider
      (same) "w' = w"
    | (failed) x md where "handle_file e (uuid4 e) fl md w = (Inl x, w')"
    | (stored) cid md md1 w1 where
        "map_of md ''image'' = None" "map_of md ''content_type'' = None"
        "handle_file e (uuid4 e) fl md w = (Inr (cid, md1), w1)"
        "store_record e (uuid4 e) cid md1 w1 = (res, w')"
    by blast
  then show ?thesis
  proof cases
    case same
    with fresh st show ?thesis by simp
  next
    case failed
    from handle_file_metadata_dir [OF failed]
    have "stored_data w' (uuid4 e) = stored_data w (uuid4 e)"
      by (rule stored_data_cong)
    with fresh st show ?thesis by simp
  next
    case stored
    from handle_file_metadata_dir [OF stored(3)]
    have "stored_data w1 (uuid4 e) = stored_data w (uuid4 e)"
      by (rule stored_data_cong)
    with fresh have none: "stored_data w1 (uuid4 e) = None" by simp
    from store_record_stored [OF stored(4) none st]
    have d: "dict_get d ''content_cid'' = cid" "dict_get d ''metadata'' = JObj md1" by simp_all
    from handle_file_together [OF stored(3) stored(1) stored(2)] d show ?thesis
      by (auto simp: has_key_def)
  qed
qed

lemma upload_with_file:
  assumes "upload_to_ipfs e (Some f) name description attributes w = (Inr r, w')"
  shows "ipfs_add e (file_bytes f) = Some (content_cid r)
       \<and> map_of (metadata r) ''image'' = Some (JStr (''ipfs://'' @ content_cid r))
       \<and> map_of (metadata r) ''content_type''
           = Some (case content_type f of None \<Rightarrow> JNull | Some t \<Rightarrow> JStr t)"
  using assms
  by (auto simp: upload_to_ipfs_def upload_body_def Let_def map_of_dict_set
     split: prod.splits sum.splits if_splits dest!: store_record_fields handle_file_Some)

lemma upload_body_nofile:
  "upload_body e None name description attributes w = (Inr r, w') \<Longrightarrow> False"
  by (auto simp: upload_body_def handle_file_def Let_def split: sum.splits if_splits
      dest!: store_record_fields)

text \<open>The sort on keys that are all strings is the stable insertion sort of the library.\<close>

lemma py_lt_str: "py_lt p (JStr a) (JStr b) = Some (a < b)"
  by (simp add: py_lt_def)

lemma insort_py_str:
  "\<forall>y\<in>set (x # ys). k y = JStr (f y) \<Longrightarrow> insort_py p k x ys = Inr (insort_key f x ys)"
  by (induction ys) (auto simp: py_lt_str split: bool.splits)

lemma sort_py_str:
  "\<forall>y\<in>set xs. k y = JStr (f y) \<Longrightarrow> sort_py p k xs = Inr (sort_key f xs)"
  by (induction xs) (auto simp: insort_py_str)

lemma sort_reverse_str:
  assumes "\<forall>y\<in>set xs. k y = JStr (f y)"
  shows "sort_reverse p k xs = Inr (rev (sort_key f (rev xs)))"
  using sort_py_str [of "rev xs" k f p] assms by (simp add: sort_reverse_def)

lemma name_key_str: "is_str (name_key x) \<Longrightarrow> name_key x = JStr (name_str x)"
  by (cases "name_key x") (auto simp: name_str_def)

lemma rev_sort_desc: "sorted_wrt (\<lambda>a b. f b \<le> f a) (rev (sort_key f xs))"
proof -
  have "sorted (map f (sort_key f xs))" by (rule sorted_sort_key)
  then have "sorted_wrt (\<lambda>a b. f a \<le> f b) (sort_key f xs)" by (simp add: sorted_map)
  then show ?thesis by (simp add: sorted_wrt_rev)
qed

lemma rev_sort_stable:
  "filter (\<lambda>y. f y = v) (rev (sort_key f (rev xs))) = filter (\<lambda>y. f y = v) xs"
proof -
  have "filter (\<lambda>y. f y = v) (rev (sort_key f (rev xs)))
          = rev (filter (\<lambda>y. f y = v) (sort_key f (rev xs)))"
    by (simp add: rev_filter)
  also have "\<dots> = rev (filter (\<lambda>y. f y = v) (rev xs))" by (simp add: sort_key_stable)
  also have "\<dots> = filter (\<lambda>y. f y = v) xs" by (simp add: rev_filter)
  finally show ?thesis .
qed

text \<open>Whatever the keys are, a sort that returns has kept every element.\<close>

lemma insort_py_mset: "insort_py p k x ys = Inr zs \<Longrightarrow> mset zs = add_mset x (mset ys)"
  by (induction ys arbitrary: zs) (auto split: option.splits bool.splits sum.splits)

lemma sort_py_mset: "sort_py p k xs = Inr ys \<Longrightarrow> mset ys = mset xs"
  by (induction xs arbitrary: ys) (auto split: sum.splits dest: insort_py_mset)

lemma sort_reverse_length:
  assumes "sort_reverse p k xs = Inr ys"
  shows "length ys = length xs"
proof -
  from assms obtain zs where z: "sort_py p k (rev xs) = Inr zs" and y: "ys = rev zs"
    by (auto simp: sort_reverse_def split: sum.splits)
  from sort_py_mset [OF z] have "size (mset zs) = size (mset (rev xs))" by simp
  with y show ?thesis by simp
qed

lemma length_load_all:
  "length (load_all fs) = length (filter (\<lambda>f. \<not> isl (load_nft (snd f))) fs)"
  by (induction fs) (auto split: sum.splits)





text \<open>The example requests, run.\<close>

lemma create_with_file0:
  "upload_to_ipfs env0 (Some file0) ''Art1'' ''d'' None world0 = (Inr record1, world1)"
  by (simp add: handler_defs example_defs Let_def)

lemma create_empty_attributes:
  "upload_to_ipfs env0 (Some file0) ''Art1'' ''d'' (Some (Garbage [])) world0 = (Inr record1, world1)"
  by (simp add: handler_defs example_defs Let_def)

lemma create_without_file:
  "upload_to_ipfs env0 None ''Art0'' ''d'' None world0 = (Inl (HTTPException 500), world_nofile)"
  by (simp add: handler_defs example_defs Let_def)

lemma get_record1: "get_nft ''u1'' world1 = (Inr record1, world1)"
  by (simp add: handler_defs example_defs Let_def)

lemma load_world2:
  "load_all (glob_data (metadata_dir world2))
     = [listed ''a'' (JStr ''Art0''), listed ''b'' (JStr ''Art1''), listed ''c'' (JStr ''Art0'')]"
  by (simp add: handler_defs example_defs)

lemma list_world2: "list_all_nfts py0 world2 = (Inr listing2, world2)"
  by (simp add: handler_defs example_defs Let_def less_char_def)

subsection \<open>Status codes of a failed create\<close>

text \<open>
  Claim C1. A create whose attributes do not parse should answer 400, one whose connection
  to the node fails should answer 503, and any other failure 500. The body of the handler
  raises 400 and 503 as the claim says, but its only \<^verbatim>\<open>except\<close> clause catches them with
  every other exception: no create ever answers 400 or 503, and both requests below, one
  with the attributes \<^verbatim>\<open>{\<close> and one with the node unreachable, answer 500.
\<close>

theorem upload_never_400_503:
  "fst (upload_to_ipfs e fl name description attributes w) \<noteq> Inl (HTTPException 400)
   \<and> fst (upload_to_ipfs e fl name description attributes w) \<noteq> Inl (HTTPException 503)
   \<and> parse_attributes (Some (Garbage ''{'')) = Inl (HTTPException 400)
   \<and> fst (upload_to_ipfs env0 (Some file0) ''Art1'' ''d'' (Some (Garbage ''{'')) world0)
        = Inl (HTTPException 500)
   \<and> fst (upload_to_ipfs (env0\<lparr>ipfs_connect := False\<rparr>) (Some file0) ''Art1'' ''d'' None world0)
        = Inl (HTTPException 500)"
proof -
  have "fst (upload_to_ipfs e fl name description attributes w) = Inl (HTTPException 500)
      \<or> \<not> isl (fst (upload_to_ipfs e fl name description attributes w))"
    by (cases "upload_body e fl name description attributes w")
       (auto simp: upload_to_ipfs_def split: sum.splits)
  then have "fst (upload_to_ipfs e fl name description attributes w) \<noteq> Inl (HTTPException 400)"
    and "fst (upload_to_ipfs e fl name description attributes w) \<noteq> Inl (HTTPException 503)"
    by auto
  moreover have "parse_attributes (Some (Garbage ''{'')) = Inl (HTTPException 400)"
    by (simp add: parse_attributes_def)
  moreover have
    "fst (upload_to_ipfs env0 (Some file0) ''Art1'' ''d'' (Some (Garbage ''{'')) world0)
       = Inl (HTTPException 500)"
    by (simp add: handler_defs example_defs Let_def)
  moreover have
    "fst (upload_to_ipfs (env0\<lparr>ipfs_connect := False\<rparr>) (Some file0) ''Art1'' ''d'' None world0)
       = Inl (HTTPException 500)"
    by (simp add: handler_defs example_defs Let_def)
  ultimately show ?thesis by blast
qed

subsection \<open>A create with a file\<close>

text \<open>
  Claim C2, as amended. When a create with an uploaded file succeeds, the content
  identifier of the returned record is the hash the node gave for the file, and it is not
  empty exactly when that hash is not (the handler takes the hash as it comes); the
  metadata has \<^verbatim>\<open>image\<close> equal to \<^verbatim>\<open>ipfs://\<close> followed by that identifier, and it has
  \<^verbatim>\<open>content_type\<close>. In the record document that any create, with or without a file, stores
  under a fresh identifier, the content identifier and the two metadata keys are there
  together or not at all.
\<close>

theorem create_with_file_record:
  "(upload_to_ipfs e (Some f) name description attributes w = (Inr r, w') \<longrightarrow>
      ipfs_add e (file_bytes f) = Some (content_cid r)
    \<and> (content_cid r \<noteq> []) = (ipfs_add e (file_bytes f) \<noteq> Some [])
    \<and> map_of (metadata r) ''image'' = Some (JStr (''ipfs://'' @ content_cid r))
    \<and> map_of (metadata r) ''content_type'' \<noteq> None)
   \<and> (stored_data w (uuid4 e) = None
      \<and> stored_data (snd (upload_to_ipfs e fl name description attributes w)) (uuid4 e) = Some d \<longrightarrow>
      (dict_get d ''content_cid'' \<noteq> JNull) = has_key (dict_get d ''metadata'') ''image''
    \<and> (dict_get d ''content_cid'' \<noteq> JNull) = has_key (dict_get d ''metadata'') ''content_type'')"
proof (intro conjI impI)
  assume a: "upload_to_ipfs e (Some f) name description attributes w = (Inr r, w')"
  from upload_with_file [OF a] show "ipfs_add e (file_bytes f) = Some (content_cid r)" by simp
  from upload_with_file [OF a]
  show "map_of (metadata r) ''image'' = Some (JStr (''ipfs://'' @ content_cid r))" by simp
  from upload_with_file [OF a] show "map_of (metadata r) ''content_type'' \<noteq> None" by simp
  from upload_with_file [OF a]
  show "(content_cid r \<noteq> []) = (ipfs_add e (file_bytes f) \<noteq> Some [])" by auto
next
  assume b: "stored_data w (uuid4 e) = None
      \<and> stored_data (snd (upload_to_ipfs e fl name description attributes w)) (uuid4 e) = Some d"
  obtain res w1 where ub: "upload_body e fl name description attributes w = (res, w1)"
    by (cases "upload_body e fl name description attributes w") auto
  then have "snd (upload_to_ipfs e fl name description attributes w) = w1"
    by (simp add: upload_to_ipfs_def split: sum.splits)
  with b have st: "stored_data w1 (uuid4 e) = Some d" by simp
  from b have fresh: "stored_data w (uuid4 e) = None" by simp
  note both = upload_body_stored [OF fresh ub st]
  from both
  show "(dict_get d ''content_cid'' \<noteq> JNull) = has_key (dict_get d ''metadata'') ''image''"
    by (rule conjunct1)
  from both
  show "(dict_get d ''content_cid'' \<noteq> JNull) = has_key (dict_get d ''metadata'') ''content_type''"
    by (rule conjunct2)
qed

theorem create_with_file_record_witness:
  "upload_to_ipfs env0 (Some file0) ''Art1'' ''d'' None world0 = (Inr record1, world1)
   \<and> ipfs_add env0 (file_bytes file0) \<noteq> Some []
   \<and> content_cid record1 = ''Qm1''
   \<and> map_of (metadata record1) ''image'' = Some (JStr ''ipfs://Qm1'')
   \<and> map_of (metadata record1) ''content_type'' \<noteq> None
   \<and> stored_data world0 (uuid4 env0) = None
   \<and> stored_data (snd (upload_to_ipfs env0 None ''Art0'' ''d'' None world0)) (uuid4 env0) = Some data0
   \<and> dict_get data0 ''content_cid'' = JNull
   \<and> \<not> has_key (dict_get data0 ''metadata'') ''image''
   \<and> \<not> has_key (dict_get data0 ''metadata'') ''content_type''"
proof -
  have h1: "upload_to_ipfs env0 (Some file0) ''Art1'' ''d'' None world0 = (Inr record1, world1)"
    by (rule create_with_file0)
  have h2: "ipfs_add env0 (file_bytes file0) \<noteq> Some []" by (simp add: env0_def)
  have h3: "stored_data world0 (uuid4 env0) = None" by (simp add: stored_data_def world0_def)
  have h5: "content_cid record1 \<noteq> []" by (simp add: record1_def)
  have h4: "stored_data (snd (upload_to_ipfs env0 None ''Art0'' ''d'' None world0)) (uuid4 env0)
              = Some data0"
  proof -
    have "uuid4 env0 = ''u1''" by (simp add: env0_def uuid4_def)
    then show ?thesis by (simp add: create_without_file stored_data_def world_nofile_def)
  qed
  have c: "content_cid record1 = ''Qm1''" by (simp add: record1_def)
  have n: "dict_get data0 ''content_cid'' = JNull" by (simp add: dict_get_def data0_def)
  note with_file =
    create_with_file_record
      [where e = env0 and f = file0 and name = "''Art1''" and description = "''d''"
         and attributes = None and w = world0 and r = record1 and w' = world1, THEN conjunct1]
  note stored =
    create_with_file_record
      [where e = env0 and fl = None and name = "''Art0''" and description = "''d''"
         and attributes = None and w = world0 and d = data0, THEN conjunct2]
  from with_file h1 h5 c
  have a: "map_of (metadata record1) ''image'' = Some (JStr ''ipfs://Qm1'')
         \<and> map_of (metadata record1) ''content_type'' \<noteq> None"
    by simp
  from stored h3 h4 n
  have b: "\<not> has_key (dict_get data0 ''metadata'') ''image''
         \<and> \<not> has_key (dict_get data0 ''metadata'') ''content_type''"
    by simp
  from h1 h2 h3 h4 c n a b show ?thesis by blast
qed

text \<open>
  The claim as it was stated, a content identifier that is never empty, fails when the
  node answers the empty hash: the create succeeds and returns it.
\<close>

theorem empty_hash_counterexample:
  "fst (upload_to_ipfs env_empty (Some file0) ''Art1'' ''d'' None world0) = Inr record_empty
   \<and> content_cid record_empty = []"
  by (simp add: handler_defs example_defs Let_def)

subsection \<open>Reading back what a create returned\<close>

text \<open>
  Claim C3. After a successful create, \<^verbatim>\<open>get_nft\<close> with the identifier of the returned
  record returns that same record, read back from the stored record document.
\<close>

theorem get_after_create:
  "upload_to_ipfs e fl name description attributes w = (Inr r, w') \<Longrightarrow>
     get_nft (nft_id r) w' = (Inr r, w')"
  by (auto simp: upload_to_ipfs_def upload_body_def Let_def
      split: prod.splits sum.splits if_splits dest: store_record_get)

theorem get_after_create_witness:
  "upload_to_ipfs env0 (Some file0) ''Art1'' ''d'' None world0 = (Inr record1, world1)
   \<and> nft_id record1 = ''u1''
   \<and> get_nft (nft_id record1) world1 = (Inr record1, world1)"
proof -
  have h: "upload_to_ipfs env0 (Some file0) ''Art1'' ''d'' None world0 = (Inr record1, world1)"
    by (rule create_with_file0)
  from get_after_create [OF h] h show ?thesis by (simp add: record1_def)
qed

subsection \<open>The listing\<close>

text \<open>
  Claim C4, as amended. When the name of every record that loads is a string or is
  missing, \<^verbatim>\<open>list_all_nfts\<close> returns the records that load, sorted in descending order
  of their name, a missing name counting as the empty string, and records with the same
  name stay in the order in which they were enumerated. (Names that Python cannot
  compare make the sort raise, see the counterexample below.)
\<close>

theorem list_sorted_desc_stable:
  assumes "\<forall>x\<in>set (load_all (glob_data (metadata_dir w))). is_str (name_key x)"
  shows "\<exists>rs. list_all_nfts p w = (Inr \<lparr>nfts = rs, total_count = length rs\<rparr>, w)
      \<and> sorted_wrt (\<lambda>a b. name_str b \<le> name_str a) rs
      \<and> (\<forall>v. filter (\<lambda>x. name_str x = v) rs
              = filter (\<lambda>x. name_str x = v) (load_all (glob_data (metadata_dir w))))
      \<and> mset rs = mset (load_all (glob_data (metadata_dir w)))"
proof -
  let ?xs = "load_all (glob_data (metadata_dir w))"
  let ?rs = "rev (sort_key name_str (rev ?xs))"
  from assms have "\<forall>x\<in>set ?xs. name_key x = JStr (name_str x)"
    by (simp add: name_key_str)
  then have "sort_reverse p name_key ?xs = Inr ?rs" by (rule sort_reverse_str)
  then have "list_all_nfts p w = (Inr \<lparr>nfts = ?rs, total_count = length ?rs\<rparr>, w)"
    by (simp add: list_all_nfts_def)
  moreover have "sorted_wrt (\<lambda>a b. name_str b \<le> name_str a) ?rs" by (rule rev_sort_desc)
  moreover have "\<forall>v. filter (\<lambda>x. name_str x = v) ?rs = filter (\<lambda>x. name_str x = v) ?xs"
    by (simp add: rev_sort_stable)
  moreover have "mset ?rs = mset ?xs" by simp
  ultimately show ?thesis by blast
qed

theorem list_sorted_desc_stable_witness:
  "list_all (\<lambda>x. is_str (name_key x)) (load_all (glob_data (metadata_dir world2)))
   \<and> list_all_nfts py0 world2 = (Inr listing2, world2)
   \<and> map nft_id (load_all (glob_data (metadata_dir world2))) = [''a'', ''b'', ''c'']
   \<and> map nft_id (nfts listing2) = [''b'', ''a'', ''c'']
   \<and> map name_str (nfts listing2) = [''Art1'', ''Art0'', ''Art0'']
   \<and> sorted_wrt (\<lambda>a b. name_str b \<le> name_str a) (nfts listing2)
   \<and> (\<forall>v. filter (\<lambda>x. name_str x = v) (nfts listing2)
           = filter (\<lambda>x. name_str x = v) (load_all (glob_data (metadata_dir world2))))"
proof -
  have h: "\<forall>x\<in>set (load_all (glob_data (metadata_dir world2))). is_str (name_key x)"
    by (simp add: load_world2 listed_def name_key_def)
  have l: "list_all_nfts py0 world2 = (Inr listing2, world2)" by (rule list_world2)
  have m: "map nft_id (load_all (glob_data (metadata_dir world2))) = [''a'', ''b'', ''c'']"
    "map nft_id (nfts listing2) = [''b'', ''a'', ''c'']"
    "map name_str (nfts listing2) = [''Art1'', ''Art0'', ''Art0'']"
    by (simp_all add: load_world2 listing2_def listed_def name_str_def name_key_def)
  from list_sorted_desc_stable [OF h, of py0] obtain rs
    where r: "list_all_nfts py0 world2 = (Inr \<lparr>nfts = rs, total_count = length rs\<rparr>, world2)"
      and s: "sorted_wrt (\<lambda>a b. name_str b \<le> name_str a) rs"
      and t: "\<forall>v. filter (\<lambda>x. name_str x = v) rs
                = filter (\<lambda>x. name_str x = v) (load_all (glob_data (metadata_dir world2)))"
    by blast
  from r l have e: "\<lparr>nfts = rs, total_count = length rs\<rparr> = listing2" by simp
  from arg_cong [OF e, of nfts] have "rs = nfts listing2" by simp
  with s t h l m show ?thesis by (simp add: list_all_iff)
qed

text \<open>
  The claim as it was stated, for every state of the store, fails on a store with two
  records whose name is \<^verbatim>\<open>null\<close>: both load, the sort compares \<^verbatim>\<open>None < None\<close>, and the
  route answers 500 instead of a listing.
\<close>

theorem list_null_names_counterexample:
  "length (load_all (glob_data (metadata_dir world_null))) = 2
   \<and> fst (list_all_nfts py0 world_null) = Inl (HTTPException 500)"
  by (simp add: handler_defs example_defs Let_def)

subsection \<open>A create without a file\<close>

text \<open>
  Claim C5. A create without a file should return a record with no content identifier
  and with neither \<^verbatim>\<open>image\<close> nor \<^verbatim>\<open>content_type\<close> in its metadata. The handler prepares
  exactly that (\<^verbatim>\<open>content_cid = None\<close>, metadata untouched) and stores it, but the response
  model declares \<^verbatim>\<open>content_cid: str\<close>, so building the response raises: no create without
  a file succeeds, and the request below answers 500 after it has written the record.
\<close>

theorem create_without_file_fails:
  "isl (fst (upload_to_ipfs e None name description attributes w))
   \<and> upload_to_ipfs env0 None ''Art0'' ''d'' None world0 = (Inl (HTTPException 500), world_nofile)
   \<and> stored_data world_nofile ''u1'' = Some data0
   \<and> dict_get data0 ''content_cid'' = JNull"
proof -
  have "isl (fst (upload_to_ipfs e None name description attributes w))"
  proof (cases "upload_body e None name description attributes w")
    case (Pair res w')
    then show ?thesis
      by (cases res) (auto simp: upload_to_ipfs_def dest: upload_body_nofile)
  qed
  moreover have "stored_data world_nofile ''u1'' = Some data0"
    by (simp add: stored_data_def world_nofile_def)
  moreover have "dict_get data0 ''content_cid'' = JNull"
    by (simp add: dict_get_def data0_def)
  ultimately show ?thesis using create_without_file by blast
qed

subsection \<open>Attributes that do not parse\<close>

text \<open>
  Claim C6, as amended. A create whose attributes string is not empty and does not parse
  as JSON fails before anything is touched: nothing is added to the node, no file is
  written, the state is the one before the request; a fresh identifier has no record
  afterwards, and the listing is what it was.
\<close>

theorem bad_attributes_no_effect:
  assumes "s \<noteq> []"
  shows "isl (fst (upload_to_ipfs e fl name description (Some (Garbage s)) w))
       \<and> snd (upload_to_ipfs e fl name description (Some (Garbage s)) w) = w
       \<and> (map_of (metadata_dir w) (uuid4 e @ ''_data.json'') = None \<longrightarrow>
            fst (get_nft (uuid4 e) (snd (upload_to_ipfs e fl name description (Some (Garbage s)) w)))
              = Inl (HTTPException 404))
       \<and> list_all_nfts p (snd (upload_to_ipfs e fl name description (Some (Garbage s)) w))
            = list_all_nfts p w"
proof -
  from assms have "parse_attributes (Some (Garbage s)) = Inl (HTTPException 400)"
    by (simp add: parse_attributes_def)
  then have "upload_to_ipfs e fl name description (Some (Garbage s)) w = (Inl (HTTPException 500), w)"
    by (simp add: upload_to_ipfs_def upload_body_def)
  moreover have "\<not> 245 < length (uuid4 e)" using uuid4_length [of e] by simp
  ultimately show ?thesis by (simp add: get_nft_def read_data_eq)
qed

theorem bad_attributes_no_effect_witness:
  "''{'' \<noteq> []
   \<and> map_of (metadata_dir world0) (uuid4 env0 @ ''_data.json'') = None
   \<and> isl (fst (upload_to_ipfs env0 (Some file0) ''Art1'' ''d'' (Some (Garbage ''{'')) world0))
   \<and> snd (upload_to_ipfs env0 (Some file0) ''Art1'' ''d'' (Some (Garbage ''{'')) world0) = world0
   \<and> fst (get_nft (uuid4 env0)
            (snd (upload_to_ipfs env0 (Some file0) ''Art1'' ''d'' (Some (Garbage ''{'')) world0)))
        = Inl (HTTPException 404)"
proof -
  have h: "''{'' \<noteq> []" by simp
  have f: "map_of (metadata_dir world0) (uuid4 env0 @ ''_data.json'') = None"
    by (simp add: world0_def)
  from bad_attributes_no_effect [OF h, of env0 "Some file0" "''Art1''" "''d''" world0 py0] f h
  show ?thesis by blast
qed

text \<open>
  The claim as it was stated, for every attributes string that does not parse, fails on
  the empty string: it is not JSON, the handler takes it for no attributes at all
  (line 62), and the record is created and can be read back.
\<close>

theorem empty_attributes_counterexample:
  "json_loads (Garbage []) = Inl JSONDecodeError
   \<and> upload_to_ipfs env0 (Some file0) ''Art1'' ''d'' (Some (Garbage [])) world0 = (Inr record1, world1)
   \<and> world1 \<noteq> world0
   \<and> get_nft ''u1'' world1 = (Inr record1, world1)"
proof -
  have "world1 \<noteq> world0" by (simp add: world1_def world0_def)
  then show ?thesis using create_empty_attributes get_record1 by simp
qed

subsection \<open>The QR routes\<close>




subsection \<open>Not found and unreadable\<close>




subsection \<open>The count of the listing\<close>

text \<open>
  Claim C9. In a listing, \<^verbatim>\<open>total_count\<close> is the length of the list of records, which is
  the number of data files that loaded, not the number of files enumerated: a file that
  does not load is in neither.
\<close>

theorem total_count_is_length:
  assumes "list_all_nfts p w = (Inr resp, w')"
  shows "total_count resp = length (nfts resp)
       \<and> length (nfts resp)
           = length (filter (\<lambda>f. \<not> isl (load_nft (snd f))) (glob_data (metadata_dir w)))
       \<and> length (nfts resp) \<le> length (glob_data (metadata_dir w))"
proof -
  from assms obtain rs
    where s: "sort_reverse p name_key (load_all (glob_data (metadata_dir w))) = Inr rs"
      and r: "resp = \<lparr>nfts = rs, total_count = length rs\<rparr>"
    by (auto simp: list_all_nfts_def Let_def split: sum.splits)
  from sort_reverse_length [OF s] r show ?thesis
    by (simp add: length_load_all)
qed

theorem total_count_is_length_witness:
  "list_all_nfts py0 world2 = (Inr listing2, world2)
   \<and> length (glob_data (metadata_dir world2)) = 4
   \<and> total_count listing2 = 3
   \<and> length (nfts listing2) = 3
   \<and> length (filter (\<lambda>f. \<not> isl (load_nft (snd f))) (glob_data (metadata_dir world2))) = 3"
proof -
  have h: "list_all_nfts py0 world2 = (Inr listing2, world2)" by (rule list_world2)
  have n: "length (glob_data (metadata_dir world2)) = 4"
    by (simp add: glob_data_def ends_with_def world2_def)
  have t: "total_count listing2 = 3" by (simp add: listing2_def)
  from total_count_is_length [OF h] h n t show ?thesis by simp
qed

subsection \<open>The reading routes leave the store alone\<close>

text \<open>
  Claim C10. \<^verbatim>\<open>get_nft\<close>, \<^verbatim>\<open>list_all_nfts\<close>, \<^verbatim>\<open>health_check\<close> and the two QR routes
  leave the state as they found it, whatever they are given and whatever they answer: no
  file of the record store is created, changed or removed.
\<close>

theorem read_only_routes:
  "snd (get_nft nid w) = w
   \<and> snd (list_all_nfts p w) = w
   \<and> snd (health_check e w) = w
   \<and> snd (generate_qr_code p nid w) = w
   \<and> snd (generate_gateway_qr_code p nid g w) = w"
  by (simp add: get_nft_def list_all_nfts_def health_check_def generate_qr_code_def
      generate_gateway_qr_code_def Let_def split: sum.splits)

end
